theory Spec2Isabelle
  imports Main "HOL-Library.Sublist"
begin

section \<open>SparkDFDatasource: guessing the reader method from a path\<close>

text \<open>
  Source: \<^verbatim>\<open>great_expectations/datasource/sparkdf_datasource.py\<close>,
  \<^verbatim>\<open>SparkDFDatasource.guess_reader_method_from_path\<close>.

  A path is a \<open>string\<close>. \<^verbatim>\<open>str.lower\<close> is modelled on the characters of
  the ASCII range, where it maps \<open>A\<close>..\<open>Z\<close> to \<open>a\<close>..\<open>z\<close> and leaves every other
  character alone; \<^verbatim>\<open>str.endswith\<close> is the suffix relation on lists.
\<close>

definition lower_char :: "char \<Rightarrow> char" where
  "lower_char c =
     (if 65 \<le> (of_char c :: nat) \<and> (of_char c :: nat) \<le> 90
      then char_of ((of_char c :: nat) + 32) else c)"

definition lower :: "string \<Rightarrow> string" where
  "lower s = map lower_char s"

definition endswith :: "string \<Rightarrow> string \<Rightarrow> bool" where
  "endswith s suf = suffix suf s"

text \<open>
  \<^verbatim>\<open>BatchKwargsError(message, batch_kwargs)\<close>: the exception carries its message and
  the offending batch kwargs.
\<close>

datatype error = BatchKwargsError string "(string \<times> string) list"

definition guess_reader_method_from_path :: "string \<Rightarrow> error + (string \<times> string) list" where
  "guess_reader_method_from_path path0 =
     (let path = lower path0 in
      if endswith path ''.csv'' \<or> endswith path ''.tsv''
      then Inr [(''reader_method'', ''csv'')]
      else if endswith path ''.parquet'' \<or> endswith path ''.parq'' \<or> endswith path ''.pqt''
      then Inr [(''reader_method'', ''parquet'')]
      else Inl (BatchKwargsError
                  (''Unable to determine reader method from path: '' @ path)
                  [(''path'', path)]))"

section \<open>The rule-based profiler's data model, as the data assistant uses it\<close>

text \<open>
  Source: \<^verbatim>\<open>contrib/capitalone_dataprofiler_expectations/.../profile_report_based_columns_data_assistant.py\<close>.

  The data assistant builds its Rule from classes and constants of
  \<^verbatim>\<open>great_expectations.rule_based_profiler\<close>. The values of the string constants
  of \<^verbatim>\<open>parameter_container\<close>, the property
  \<^verbatim>\<open>ParameterBuilder.json_serialized_fully_qualified_parameter_name\<close> and the
  function that derives a builder's name from its metric name are not part of the
  sources at hand: they are parameters of the model, collected in one record, so that
  every statement below holds whatever their values are.
\<close>

datatype py_value = PyBool bool | PyInt int | PyStr string

text \<open>
  A metric's keyword arguments are \<^verbatim>\<open>Optional[Union[str, dict]]\<close>: a string names
  a parameter whose value is the mapping, a dict is the mapping itself (its values may be
  templates).
\<close>

datatype metric_kwargs = KwargsName string | KwargsDict "(string \<times> string) list"

record parameter_builder =
  name :: string
  metric_name :: string
  metric_domain_kwargs :: "metric_kwargs option"
  metric_value_kwargs :: "metric_kwargs option"

record library =
  DOMAIN_KWARGS_PARAMETER_FULLY_QUALIFIED_NAME :: string
  FULLY_QUALIFIED_PARAMETER_NAME_METADATA_KEY :: string
  FULLY_QUALIFIED_PARAMETER_NAME_SEPARATOR_CHARACTER :: string
  FULLY_QUALIFIED_PARAMETER_NAME_VALUE_KEY :: string
  VARIABLES_KEY :: string
  sanitize_parameter_name :: "string \<Rightarrow> string"
  json_serialized_fully_qualified_parameter_name :: "parameter_builder \<Rightarrow> string"

text \<open>
  Modelled from the spec: the semantic types of columns are "numeric/text/datetime/boolean".
\<close>

datatype semantic_type = Numeric | Text | Datetime | Boolean

typedecl data_context

record column_domain_builder =
  include_column_names :: "string list option"
  exclude_column_names :: "string list option"
  include_column_name_suffixes :: "string list option"
  exclude_column_name_suffixes :: "string list option"
  semantic_type_filter_module_name :: "string option"
  semantic_type_filter_class_name :: "string option"
  include_semantic_types :: "semantic_type list option"
  exclude_semantic_types :: "semantic_type list option"
  data_context :: "data_context option"

text \<open>
  A Domain Builder is polymorphic over the kind of domain; the column variant is the one
  the data assistant instantiates.
\<close>

datatype domain_builder =
  ColumnDomainBuilder column_domain_builder
| TableDomainBuilder

datatype json = JNull | JStr string | JObj "(string \<times> json) list"

text \<open>
  \<^verbatim>\<open>ParameterBuilderConfig(**kwargs)\<close> keeps the keyword arguments it is given.
\<close>

datatype parameter_builder_config = ParameterBuilderConfig "(string \<times> json) list"

subsection \<open>Emitted Configurations and their accumulation in the Result\<close>

text \<open>
  Modelled from the spec: the class of the emitted Configurations and the accumulation of
  the Result's configuration list are missing from the sources. A Configuration is "a
  \<open>type\<close> tag plus a mapping of resolved field name to resolved value, plus optional
  \<open>meta\<close> mapping", and "two Configurations are equal iff \<open>(type, fields)\<close> are equal,
  ignoring \<open>meta\<close>".
\<close>

record configuration =
  configuration_type :: string
  configuration_fields :: "string \<rightharpoonup> py_value"
  meta :: "string \<rightharpoonup> py_value"

definition configuration_eq :: "configuration \<Rightarrow> configuration \<Rightarrow> bool" where
  "configuration_eq a b \<longleftrightarrow> configuration_type a = configuration_type b
     \<and> configuration_fields a = configuration_fields b"

text \<open>
  Modelled from the spec: the Result's "single well-defined merge/append operation",
  "deduplicating identical configurations": a Configuration is appended unless an equal
  one has been accumulated already.
\<close>

definition add_configuration :: "configuration list \<Rightarrow> configuration \<Rightarrow> configuration list" where
  "add_configuration cs c = (if list_ex (\<lambda>x. configuration_eq x c) cs then cs else cs @ [c])"

definition deduplicate :: "configuration list \<Rightarrow> configuration list" where
  "deduplicate cs = foldl add_configuration [] cs"

record default_expectation_configuration_builder =
  expectation_type :: string
  validation_parameter_builder_configs :: "parameter_builder_config list option"
  kwargs :: "(string \<times> string) list"
  meta :: "(string \<times> string) list"

record rule =
  name :: string
  variables :: "(string \<times> py_value) list"
  domain_builder :: domain_builder
  parameter_builders :: "parameter_builder list"
  expectation_configuration_builders :: "default_expectation_configuration_builder list"

subsection \<open>Helpers of the library that the Rule is built with\<close>

text \<open>
  Modelled from the spec: \<^verbatim>\<open>DataAssistant.commonly_used_parameter_builders.build_metric_single_batch_parameter_builder\<close>
  is missing from the sources. A Parameter Builder "declares a \<open>metric_name\<close>,
  \<open>metric_domain_kwargs\<close> and \<open>metric_value_kwargs\<close>": the helper returns the builder
  that declares the three arguments it is called with, under the name the library
  derives from the metric name.
\<close>

definition build_metric_single_batch_parameter_builder ::
  "library \<Rightarrow> string \<Rightarrow> metric_kwargs option \<Rightarrow> metric_kwargs option \<Rightarrow> parameter_builder" where
  "build_metric_single_batch_parameter_builder lib mname dkwargs vkwargs =
     \<lparr>parameter_builder.name = sanitize_parameter_name lib mname,
      metric_name = mname,
      metric_domain_kwargs = dkwargs,
      metric_value_kwargs = vkwargs\<rparr>"

text \<open>
  Modelled from the spec: \<^verbatim>\<open>ParameterBuilder.to_json_dict\<close> is missing from the
  sources. A validation config is a "lightweight re-declaration (name + backend metric
  spec)" of a Parameter Builder: the JSON dictionary of a builder holds its name and its
  metric spec, each under the key of the constructor argument.
\<close>

fun kwargs_to_json :: "metric_kwargs option \<Rightarrow> json" where
  "kwargs_to_json None = JNull"
| "kwargs_to_json (Some (KwargsName s)) = JStr s"
| "kwargs_to_json (Some (KwargsDict d)) = JObj (map (\<lambda>(k, v). (k, JStr v)) d)"

definition to_json_dict :: "parameter_builder \<Rightarrow> (string \<times> json) list" where
  "to_json_dict pb =
     [(''name'', JStr (parameter_builder.name pb)),
      (''metric_name'', JStr (metric_name pb)),
      (''metric_domain_kwargs'', kwargs_to_json (metric_domain_kwargs pb)),
      (''metric_value_kwargs'', kwargs_to_json (metric_value_kwargs pb))]"

text \<open>
  Modelled from the spec: reading a validation config back as the builder it re-declares
  (the library's instantiation of a Parameter Builder from its config is missing from the
  sources). The result is \<open>None\<close> when an entry is absent or is not of the shape
  \<open>to_json_dict\<close> writes.
\<close>

fun json_to_entry :: "string \<times> json \<Rightarrow> (string \<times> string) option" where
  "json_to_entry (k, JStr v) = Some (k, v)"
| "json_to_entry (k, _) = None"

fun json_to_entries :: "(string \<times> json) list \<Rightarrow> (string \<times> string) list option" where
  "json_to_entries [] = Some []"
| "json_to_entries (e # es) =
     (case json_to_entry e of
        None \<Rightarrow> None
      | Some kv \<Rightarrow> (case json_to_entries es of None \<Rightarrow> None | Some kvs \<Rightarrow> Some (kv # kvs)))"

fun json_to_kwargs :: "json \<Rightarrow> metric_kwargs option option" where
  "json_to_kwargs JNull = Some None"
| "json_to_kwargs (JStr s) = Some (Some (KwargsName s))"
| "json_to_kwargs (JObj es) =
     (case json_to_entries es of None \<Rightarrow> None | Some d \<Rightarrow> Some (Some (KwargsDict d)))"

fun parameter_builder_of_config :: "parameter_builder_config \<Rightarrow> parameter_builder option" where
  "parameter_builder_of_config (ParameterBuilderConfig d) =
     (case (map_of d ''name'', map_of d ''metric_name'',
            map_of d ''metric_domain_kwargs'', map_of d ''metric_value_kwargs'') of
        (Some (JStr n), Some (JStr m), Some jd, Some jv) \<Rightarrow>
          (case (json_to_kwargs jd, json_to_kwargs jv) of
             (Some dk, Some vk) \<Rightarrow>
               Some \<lparr>parameter_builder.name = n, metric_name = m,
                     metric_domain_kwargs = dk, metric_value_kwargs = vk\<rparr>
           | _ \<Rightarrow> None)
      | _ \<Rightarrow> None)"

section \<open>ProfileReportBasedColumnsDataAssistant\<close>

text \<open>
  The methods do not read \<^verbatim>\<open>self\<close>; the library is their only argument here.
  Python's f-strings over strings are concatenations.
\<close>

definition get_variables :: "(string \<times> py_value) list option" where
  "get_variables = None"

definition build_columns_rule :: "library \<Rightarrow> rule" where
  "build_columns_rule lib =
     (let column_domain_builder =
            ColumnDomainBuilder
              \<lparr>include_column_names = None,
               exclude_column_names = None,
               include_column_name_suffixes = None,
               exclude_column_name_suffixes = None,
               semantic_type_filter_module_name = None,
               semantic_type_filter_class_name = None,
               include_semantic_types = None,
               exclude_semantic_types = None,
               data_context = None\<rparr>;
          data_profiler_profile_report_metric_single_batch_parameter_builder_for_metrics =
            build_metric_single_batch_parameter_builder lib
              ''data_profiler.column_profile_report''
              (Some (KwargsName (DOMAIN_KWARGS_PARAMETER_FULLY_QUALIFIED_NAME lib)))
              (Some (KwargsDict [(''profile_path'', VARIABLES_KEY lib @ ''profile_path'')]));
          data_profiler_profile_report_metric_single_batch_parameter_builder_for_validations =
            data_profiler_profile_report_metric_single_batch_parameter_builder_for_metrics;
          validation_parameter_builder_configs =
            [ParameterBuilderConfig
               (to_json_dict
                  data_profiler_profile_report_metric_single_batch_parameter_builder_for_validations)];
          expect_column_min_to_be_between_expectation_configuration_builder =
            \<lparr>expectation_type = ''expect_column_min_to_be_between'',
             validation_parameter_builder_configs = Some validation_parameter_builder_configs,
             kwargs =
               [(''column'',
                   DOMAIN_KWARGS_PARAMETER_FULLY_QUALIFIED_NAME lib
                   @ FULLY_QUALIFIED_PARAMETER_NAME_SEPARATOR_CHARACTER lib @ ''column''),
                (''min_value'',
                   json_serialized_fully_qualified_parameter_name lib
                     data_profiler_profile_report_metric_single_batch_parameter_builder_for_validations
                   @ FULLY_QUALIFIED_PARAMETER_NAME_SEPARATOR_CHARACTER lib
                   @ FULLY_QUALIFIED_PARAMETER_NAME_VALUE_KEY lib @ ''.statistics.min''),
                (''max_value'',
                   json_serialized_fully_qualified_parameter_name lib
                     data_profiler_profile_report_metric_single_batch_parameter_builder_for_validations
                   @ FULLY_QUALIFIED_PARAMETER_NAME_SEPARATOR_CHARACTER lib
                   @ FULLY_QUALIFIED_PARAMETER_NAME_VALUE_KEY lib @ ''.statistics.min''),
                (''strict_min'', VARIABLES_KEY lib @ ''strict_min''),
                (''strict_max'', VARIABLES_KEY lib @ ''strict_max'')],
             meta =
               [(''profiler_details'',
                   json_serialized_fully_qualified_parameter_name lib
                     data_profiler_profile_report_metric_single_batch_parameter_builder_for_validations
                   @ FULLY_QUALIFIED_PARAMETER_NAME_SEPARATOR_CHARACTER lib
                   @ FULLY_QUALIFIED_PARAMETER_NAME_METADATA_KEY lib)]\<rparr>;
          variables =
            [(''strict_min'', PyBool False),
             (''strict_max'', PyBool False),
             (''profile_path'', PyStr ''default_profiler_path'')];
          parameter_builders =
            [data_profiler_profile_report_metric_single_batch_parameter_builder_for_metrics];
          expectation_configuration_builders =
            [expect_column_min_to_be_between_expectation_configuration_builder]
      in \<lparr>name = ''columns_rule'',
          variables = variables,
          domain_builder = column_domain_builder,
          parameter_builders = parameter_builders,
          expectation_configuration_builders = expectation_configuration_builders\<rparr>)"

definition get_rules :: "library \<Rightarrow> rule list option" where
  "get_rules lib = (let columns_rule = build_columns_rule lib in Some [columns_rule])"

text \<open>
  Modelled from the spec: the class \<^verbatim>\<open>DataAssistantResult\<close> and its subclass are
  missing from the sources. The Result "accumulates the list of emitted Configurations,
  per-domain metric snapshots, per-stage execution-time measurements (domain-builder
  time, total rule time), and a citation/provenance record", and "all contained errors
  are surfaced in the final Result (not swallowed)". The record has the nine fields that
  \<^verbatim>\<open>_build_data_assistant_result\<close> names (a leading underscore of a field's name
  is dropped) and the field of the surfaced errors, \<open>rule_exception_tracebacks\<close>: the
  errors caught while the Rules ran, \<open>None\<close> when none has been recorded, which is also
  what the constructor gives the field when it is called without it. The types of the
  fields are left open. The record also holds the concrete class of the object.
\<close>

datatype result_class = DataAssistantResult | ProfileReportBasedColumnsDataAssistantResult

record ('names, 'config, 'time, 'dtimes, 'rtimes, 'errors, 'metrics, 'configurations,
    'citation, 'handler) data_assistant_result =
  result_class :: result_class
  batch_id_to_batch_identifier_display_name_map :: 'names
  profiler_config :: 'config
  profiler_execution_time :: 'time
  rule_domain_builder_execution_time :: 'dtimes
  rule_execution_time :: 'rtimes
  rule_exception_tracebacks :: "'errors option"
  metrics_by_domain :: 'metrics
  expectation_configurations :: 'configurations
  citation :: 'citation
  usage_statistics_handler :: 'handler

text \<open>
  \<^verbatim>\<open>_build_data_assistant_result\<close> calls the constructor of the subclass with nine
  keyword arguments, each read from the field of the same name of its argument. It does
  not pass \<open>rule_exception_tracebacks\<close>, so the new object has the constructor's default
  there.
\<close>

definition build_data_assistant_result ::
  "('names, 'config, 'time, 'dtimes, 'rtimes, 'errors, 'metrics, 'configurations,
    'citation, 'handler) data_assistant_result
   \<Rightarrow> ('names, 'config, 'time, 'dtimes, 'rtimes, 'errors, 'metrics, 'configurations,
    'citation, 'handler) data_assistant_result" where
  "build_data_assistant_result data_assistant_result =
     \<lparr>result_class = ProfileReportBasedColumnsDataAssistantResult,
      batch_id_to_batch_identifier_display_name_map =
        batch_id_to_batch_identifier_display_name_map data_assistant_result,
      profiler_config = profiler_config data_assistant_result,
      profiler_execution_time = profiler_execution_time data_assistant_result,
      rule_domain_builder_execution_time =
        rule_domain_builder_execution_time data_assistant_result,
      rule_execution_time = rule_execution_time data_assistant_result,
      rule_exception_tracebacks = None,
      metrics_by_domain = metrics_by_domain data_assistant_result,
      expectation_configurations = expectation_configurations data_assistant_result,
      citation = citation data_assistant_result,
      usage_statistics_handler = usage_statistics_handler data_assistant_result\<rparr>"

section \<open>The column Domain Builder's filter pipeline\<close>

text \<open>
  Modelled from the spec: \<^verbatim>\<open>ColumnDomainBuilder\<close> is missing from the sources. The
  dataset's schema is a "sequence of \<open>{name, inferred_type}\<close>". The builder "discovers
  column domains by enumerating the dataset schema, applying inclusion/exclusion filters
  on name, name-suffix, and semantic type, in that filter order: explicit include list
  (if present, ignore all other filters and exclusion lists except explicit excludes
  applied after), then suffix filters, then semantic-type filters. Excludes take
  precedence over includes when both match the same column." A filter that is \<open>None\<close>
  is not configured and filters nothing. The builder fails with \<open>NoDomainsFoundError\<close>
  "if the filtered set is empty".
\<close>

type_synonym schema_column = "string \<times> semantic_type"

definition has_suffix_in :: "string list \<Rightarrow> string \<Rightarrow> bool" where
  "has_suffix_in sufs n = list_ex (\<lambda>suf. endswith n suf) sufs"

definition filter_by_names :: "column_domain_builder \<Rightarrow> schema_column list \<Rightarrow> schema_column list" where
  "filter_by_names b cols =
     (let included =
            (case include_column_names b of
               None \<Rightarrow> cols
             | Some names \<Rightarrow> filter (\<lambda>(n, t). n \<in> set names) cols)
      in case exclude_column_names b of
           None \<Rightarrow> included
         | Some names \<Rightarrow> filter (\<lambda>(n, t). n \<notin> set names) included)"

definition filter_by_suffixes :: "column_domain_builder \<Rightarrow> schema_column list \<Rightarrow> schema_column list" where
  "filter_by_suffixes b cols =
     (let included =
            (case include_column_name_suffixes b of
               None \<Rightarrow> cols
             | Some sufs \<Rightarrow> filter (\<lambda>(n, t). has_suffix_in sufs n) cols)
      in case exclude_column_name_suffixes b of
           None \<Rightarrow> included
         | Some sufs \<Rightarrow> filter (\<lambda>(n, t). \<not> has_suffix_in sufs n) included)"

definition filter_by_semantic_types :: "column_domain_builder \<Rightarrow> schema_column list \<Rightarrow> schema_column list" where
  "filter_by_semantic_types b cols =
     (let included =
            (case include_semantic_types b of
               None \<Rightarrow> cols
             | Some types \<Rightarrow> filter (\<lambda>(n, t). t \<in> set types) cols)
      in case exclude_semantic_types b of
           None \<Rightarrow> included
         | Some types \<Rightarrow> filter (\<lambda>(n, t). t \<notin> set types) included)"

definition get_effective_columns :: "column_domain_builder \<Rightarrow> schema_column list \<Rightarrow> schema_column list" where
  "get_effective_columns b cols =
     (case include_column_names b of
        Some names \<Rightarrow> filter_by_names b cols
      | None \<Rightarrow> filter_by_semantic_types b (filter_by_suffixes b (filter_by_names b cols)))"

text \<open>
  Modelled from the spec: a Domain has a \<open>domain_type\<close> tag and \<open>domain_kwargs\<close>, a
  "mapping of addressing keys, e.g. column name"; a column domain is addressed by the
  column's name.
\<close>

record domain =
  domain_type :: string
  domain_kwargs :: "(string \<times> string) list"

datatype profiler_error = NoDomainsFoundError

definition column_domain :: "schema_column \<Rightarrow> domain" where
  "column_domain c = \<lparr>domain_type = ''column'', domain_kwargs = [(''column'', fst c)]\<rparr>"

definition build_domains :: "column_domain_builder \<Rightarrow> schema_column list \<Rightarrow> profiler_error + domain list" where
  "build_domains b cols =
     (let effective = get_effective_columns b cols
      in if effective = [] then Inl NoDomainsFoundError else Inr (map column_domain effective))"

section \<open>Properties of the reader-method guess\<close>

lemma lower_char_idem: "lower_char (lower_char c) = lower_char c"
proof (cases "65 \<le> (of_char c :: nat) \<and> (of_char c :: nat) \<le> 90")
  case True
  then have "((of_char c :: nat) + 32) mod 256 = of_char c + 32"
    by simp
  with True show ?thesis
    by (simp add: lower_char_def)
next
  case False
  then show ?thesis
    by (auto simp: lower_char_def)
qed

lemma lower_idem: "lower (lower s) = lower s"
  by (simp add: lower_def lower_char_idem)

lemma endswith_last:
  assumes "endswith s suf" and "suf \<noteq> []"
  shows "s \<noteq> [] \<and> last s = last suf"
proof -
  from assms(1) obtain zs where "s = zs @ suf"
    by (auto simp: endswith_def suffix_def)
  with assms(2) show ?thesis by simp
qed

lemma csv_not_parquet:
  assumes "endswith s ''.csv'' \<or> endswith s ''.tsv''"
  shows "\<not> (endswith s ''.parquet'' \<or> endswith s ''.parq'' \<or> endswith s ''.pqt'')"
proof -
  from assms have "last s = CHR ''v''"
    by (auto dest!: endswith_last)
  then show ?thesis
    by (auto dest!: endswith_last)
qed

text \<open>
  Claim C10. For every path, the guess is \<open>{"reader_method": "csv"}\<close> exactly when the
  lowercased path ends with \<open>.csv\<close> or \<open>.tsv\<close>, it is \<open>{"reader_method": "parquet"}\<close>
  exactly when the lowercased path ends with \<open>.parquet\<close>, \<open>.parq\<close> or \<open>.pqt\<close>, and it
  is a \<open>BatchKwargsError\<close> exactly for every other path. These three outcomes are the
  only ones, and the match is case-insensitive: the outcome depends on the lowercased path
  alone, so lowercasing the path beforehand changes nothing and two paths that differ
  only in case get the same outcome.
\<close>

theorem guess_reader_method_from_path_cases:
  "(guess_reader_method_from_path p = Inr [(''reader_method'', ''csv'')]
      \<longleftrightarrow> (endswith (lower p) ''.csv'' \<or> endswith (lower p) ''.tsv''))
   \<and> (guess_reader_method_from_path p = Inr [(''reader_method'', ''parquet'')]
      \<longleftrightarrow> (endswith (lower p) ''.parquet'' \<or> endswith (lower p) ''.parq''
           \<or> endswith (lower p) ''.pqt''))
   \<and> ((\<exists>e. guess_reader_method_from_path p = Inl e)
      \<longleftrightarrow> (\<not> endswith (lower p) ''.csv'' \<and> \<not> endswith (lower p) ''.tsv''
           \<and> \<not> endswith (lower p) ''.parquet'' \<and> \<not> endswith (lower p) ''.parq''
           \<and> \<not> endswith (lower p) ''.pqt''))
   \<and> (guess_reader_method_from_path p = Inr [(''reader_method'', ''csv'')]
      \<or> guess_reader_method_from_path p = Inr [(''reader_method'', ''parquet'')]
      \<or> guess_reader_method_from_path p =
           Inl (BatchKwargsError
                  (''Unable to determine reader method from path: '' @ lower p)
                  [(''path'', lower p)]))
   \<and> guess_reader_method_from_path (lower p) = guess_reader_method_from_path p
   \<and> (lower p = lower q \<longrightarrow>
        guess_reader_method_from_path p = guess_reader_method_from_path q)"
proof -
  let ?c = "endswith (lower p) ''.csv'' \<or> endswith (lower p) ''.tsv''"
  let ?q = "endswith (lower p) ''.parquet'' \<or> endswith (lower p) ''.parq''
              \<or> endswith (lower p) ''.pqt''"
  have excl: "?c \<Longrightarrow> \<not> ?q"
    by (rule csv_not_parquet)
  have csv: "guess_reader_method_from_path p = Inr [(''reader_method'', ''csv'')] \<longleftrightarrow> ?c"
    by (simp add: guess_reader_method_from_path_def Let_def)
  have parquet:
    "guess_reader_method_from_path p = Inr [(''reader_method'', ''parquet'')] \<longleftrightarrow> ?q"
    using excl by (auto simp: guess_reader_method_from_path_def Let_def)
  have err: "(\<exists>e. guess_reader_method_from_path p = Inl e) \<longleftrightarrow> (\<not> ?c \<and> \<not> ?q)"
    by (auto simp: guess_reader_method_from_path_def Let_def)
  have total:
    "guess_reader_method_from_path p = Inr [(''reader_method'', ''csv'')]
      \<or> guess_reader_method_from_path p = Inr [(''reader_method'', ''parquet'')]
      \<or> guess_reader_method_from_path p =
           Inl (BatchKwargsError
                  (''Unable to determine reader method from path: '' @ lower p)
                  [(''path'', lower p)])"
    by (simp add: guess_reader_method_from_path_def Let_def)
  have idem: "guess_reader_method_from_path (lower p) = guess_reader_method_from_path p"
    by (simp add: guess_reader_method_from_path_def lower_idem)
  have same: "lower p = lower q \<longrightarrow>
      guess_reader_method_from_path p = guess_reader_method_from_path q"
    by (simp add: guess_reader_method_from_path_def)
  from csv parquet err total idem same show ?thesis
    by blast
qed

theorem guess_reader_method_from_path_cases_witness:
  "lower ''Data/Taxi.CSV'' = lower ''data/taxi.csv''
   \<and> guess_reader_method_from_path ''Data/Taxi.CSV'' = Inr [(''reader_method'', ''csv'')]
   \<and> guess_reader_method_from_path ''data/taxi.csv'' = Inr [(''reader_method'', ''csv'')]"
proof -
  have l: "lower ''Data/Taxi.CSV'' = lower ''data/taxi.csv''"
    by code_simp
  have e: "endswith (lower ''data/taxi.csv'') ''.csv''"
    by code_simp
  from guess_reader_method_from_path_cases [of "''Data/Taxi.CSV''" "''data/taxi.csv''"]
    guess_reader_method_from_path_cases [of "''data/taxi.csv''" "''data/taxi.csv''"] l e
  show ?thesis
    by simp
qed

section \<open>Properties of the columns rule and of the data assistant's result\<close>

lemma parameter_builders_columns_rule:
  "parameter_builders (build_columns_rule lib) =
     [build_metric_single_batch_parameter_builder lib
        ''data_profiler.column_profile_report''
        (Some (KwargsName (DOMAIN_KWARGS_PARAMETER_FULLY_QUALIFIED_NAME lib)))
        (Some (KwargsDict [(''profile_path'', VARIABLES_KEY lib @ ''profile_path'')]))]"
  by (simp add: build_columns_rule_def Let_def)

lemma kwargs_columns_rule:
  "parameter_builders (build_columns_rule lib) = [pb] \<Longrightarrow>
   map kwargs (expectation_configuration_builders (build_columns_rule lib)) =
     [[(''column'',
          DOMAIN_KWARGS_PARAMETER_FULLY_QUALIFIED_NAME lib
          @ FULLY_QUALIFIED_PARAMETER_NAME_SEPARATOR_CHARACTER lib @ ''column''),
       (''min_value'',
          json_serialized_fully_qualified_parameter_name lib pb
          @ FULLY_QUALIFIED_PARAMETER_NAME_SEPARATOR_CHARACTER lib
          @ FULLY_QUALIFIED_PARAMETER_NAME_VALUE_KEY lib @ ''.statistics.min''),
       (''max_value'',
          json_serialized_fully_qualified_parameter_name lib pb
          @ FULLY_QUALIFIED_PARAMETER_NAME_SEPARATOR_CHARACTER lib
          @ FULLY_QUALIFIED_PARAMETER_NAME_VALUE_KEY lib @ ''.statistics.min''),
       (''strict_min'', VARIABLES_KEY lib @ ''strict_min''),
       (''strict_max'', VARIABLES_KEY lib @ ''strict_max'')]]"
  by (simp add: build_columns_rule_def Let_def)

lemma meta_columns_rule:
  "parameter_builders (build_columns_rule lib) = [pb] \<Longrightarrow>
   map meta (expectation_configuration_builders (build_columns_rule lib)) =
     [[(''profiler_details'',
          json_serialized_fully_qualified_parameter_name lib pb
          @ FULLY_QUALIFIED_PARAMETER_NAME_SEPARATOR_CHARACTER lib
          @ FULLY_QUALIFIED_PARAMETER_NAME_METADATA_KEY lib)]]"
  by (simp add: build_columns_rule_def Let_def)

lemma expectation_type_columns_rule:
  "map expectation_type (expectation_configuration_builders (build_columns_rule lib)) =
     [''expect_column_min_to_be_between'']"
  by (simp add: build_columns_rule_def Let_def)

lemma validation_configs_columns_rule:
  "parameter_builders (build_columns_rule lib) = [pb] \<Longrightarrow>
   map validation_parameter_builder_configs
       (expectation_configuration_builders (build_columns_rule lib)) =
     [Some [ParameterBuilderConfig (to_json_dict pb)]]"
  by (simp add: build_columns_rule_def Let_def)

lemma singleton_map: "map f xs = [y] \<Longrightarrow> \<exists>x. xs = [x] \<and> f x = y"
  by (cases xs) auto

text \<open>
  Claim C1. In the Rule built by \<^verbatim>\<open>_build_columns_rule\<close>, the \<open>min_value\<close> and the
  \<open>max_value\<close> field templates of the \<open>expect_column_min_to_be_between\<close> configuration
  builder are the same string: the parameter builder's fully-qualified parameter name,
  the separator, the value key and \<open>.statistics.min\<close>. Whatever function resolves a
  template for a domain, it therefore gives both fields the same value for every domain.
\<close>

theorem columns_rule_min_value_is_max_value:
  "\<exists>pb cb.
     parameter_builders (build_columns_rule lib) = [pb]
     \<and> expectation_configuration_builders (build_columns_rule lib) = [cb]
     \<and> expectation_type cb = ''expect_column_min_to_be_between''
     \<and> map_of (kwargs cb) ''min_value'' =
         Some (json_serialized_fully_qualified_parameter_name lib pb
               @ FULLY_QUALIFIED_PARAMETER_NAME_SEPARATOR_CHARACTER lib
               @ FULLY_QUALIFIED_PARAMETER_NAME_VALUE_KEY lib @ ''.statistics.min'')
     \<and> map_of (kwargs cb) ''max_value'' =
         Some (json_serialized_fully_qualified_parameter_name lib pb
               @ FULLY_QUALIFIED_PARAMETER_NAME_SEPARATOR_CHARACTER lib
               @ FULLY_QUALIFIED_PARAMETER_NAME_VALUE_KEY lib @ ''.statistics.min'')
     \<and> map_of (kwargs cb) ''min_value'' = map_of (kwargs cb) ''max_value''
     \<and> map_option (resolve_template d) (map_of (kwargs cb) ''min_value'') =
         map_option (resolve_template d) (map_of (kwargs cb) ''max_value'')"
proof -
  obtain pb where pb: "parameter_builders (build_columns_rule lib) = [pb]"
    using parameter_builders_columns_rule by blast
  from kwargs_columns_rule [OF pb] obtain cb where
    cb: "expectation_configuration_builders (build_columns_rule lib) = [cb]"
    and kw: "kwargs cb = [(''column'',
          DOMAIN_KWARGS_PARAMETER_FULLY_QUALIFIED_NAME lib
          @ FULLY_QUALIFIED_PARAMETER_NAME_SEPARATOR_CHARACTER lib @ ''column''),
       (''min_value'',
          json_serialized_fully_qualified_parameter_name lib pb
          @ FULLY_QUALIFIED_PARAMETER_NAME_SEPARATOR_CHARACTER lib
          @ FULLY_QUALIFIED_PARAMETER_NAME_VALUE_KEY lib @ ''.statistics.min''),
       (''max_value'',
          json_serialized_fully_qualified_parameter_name lib pb
          @ FULLY_QUALIFIED_PARAMETER_NAME_SEPARATOR_CHARACTER lib
          @ FULLY_QUALIFIED_PARAMETER_NAME_VALUE_KEY lib @ ''.statistics.min''),
       (''strict_min'', VARIABLES_KEY lib @ ''strict_min''),
       (''strict_max'', VARIABLES_KEY lib @ ''strict_max'')]"
    by (blast dest: singleton_map)
  from expectation_type_columns_rule [of lib] cb
  have ty: "expectation_type cb = ''expect_column_min_to_be_between''"
    by simp
  from kw have mn: "map_of (kwargs cb) ''min_value'' =
         Some (json_serialized_fully_qualified_parameter_name lib pb
               @ FULLY_QUALIFIED_PARAMETER_NAME_SEPARATOR_CHARACTER lib
               @ FULLY_QUALIFIED_PARAMETER_NAME_VALUE_KEY lib @ ''.statistics.min'')"
    by simp
  from kw have mx: "map_of (kwargs cb) ''max_value'' =
         Some (json_serialized_fully_qualified_parameter_name lib pb
               @ FULLY_QUALIFIED_PARAMETER_NAME_SEPARATOR_CHARACTER lib
               @ FULLY_QUALIFIED_PARAMETER_NAME_VALUE_KEY lib @ ''.statistics.min'')"
    by simp
  from pb cb ty mn mx show ?thesis
    by simp
qed


lemma domain_builder_columns_rule:
  "domain_builder (build_columns_rule lib) =
     ColumnDomainBuilder
       \<lparr>include_column_names = None,
        exclude_column_names = None,
        include_column_name_suffixes = None,
        exclude_column_name_suffixes = None,
        semantic_type_filter_module_name = None,
        semantic_type_filter_class_name = None,
        include_semantic_types = None,
        exclude_semantic_types = None,
        data_context = None\<rparr>"
  by (simp add: build_columns_rule_def Let_def)

lemma variables_columns_rule:
  "variables (build_columns_rule lib) =
     [(''strict_min'', PyBool False),
      (''strict_max'', PyBool False),
      (''profile_path'', PyStr ''default_profiler_path'')]"
  by (simp add: build_columns_rule_def Let_def)

lemma name_columns_rule: "name (build_columns_rule lib) = ''columns_rule''"
  by (simp add: build_columns_rule_def Let_def)

text \<open>
  Claim C2. Every templated field of the \<open>expect_column_min_to_be_between\<close> configuration
  builder is addressed in one of the three namespaces: \<open>column\<close> is the domain-kwargs
  name joined with the separator and \<open>column\<close>; \<open>min_value\<close> and \<open>max_value\<close> start with
  the parameter builder's fully-qualified name joined with the separator and the value key
  (the path \<open>.statistics.min\<close> into the value follows); \<open>strict_min\<close> and \<open>strict_max\<close>
  are the variables key followed by the variable's name; and the \<open>profiler_details\<close>
  entry of \<open>meta\<close> is the parameter builder's fully-qualified name joined with the
  separator and the metadata key. The builder has no other templated field.
\<close>

theorem columns_rule_fields_use_fqpn_scopes:
  "\<exists>pb cb.
     parameter_builders (build_columns_rule lib) = [pb]
     \<and> expectation_configuration_builders (build_columns_rule lib) = [cb]
     \<and> expectation_type cb = ''expect_column_min_to_be_between''
     \<and> map fst (kwargs cb) =
         [''column'', ''min_value'', ''max_value'', ''strict_min'', ''strict_max'']
     \<and> map_of (kwargs cb) ''column'' =
         Some (DOMAIN_KWARGS_PARAMETER_FULLY_QUALIFIED_NAME lib
               @ FULLY_QUALIFIED_PARAMETER_NAME_SEPARATOR_CHARACTER lib @ ''column'')
     \<and> map_of (kwargs cb) ''min_value'' =
         Some ((json_serialized_fully_qualified_parameter_name lib pb
                @ FULLY_QUALIFIED_PARAMETER_NAME_SEPARATOR_CHARACTER lib
                @ FULLY_QUALIFIED_PARAMETER_NAME_VALUE_KEY lib) @ ''.statistics.min'')
     \<and> map_of (kwargs cb) ''max_value'' =
         Some ((json_serialized_fully_qualified_parameter_name lib pb
                @ FULLY_QUALIFIED_PARAMETER_NAME_SEPARATOR_CHARACTER lib
                @ FULLY_QUALIFIED_PARAMETER_NAME_VALUE_KEY lib) @ ''.statistics.min'')
     \<and> map_of (kwargs cb) ''strict_min'' = Some (VARIABLES_KEY lib @ ''strict_min'')
     \<and> map_of (kwargs cb) ''strict_max'' = Some (VARIABLES_KEY lib @ ''strict_max'')
     \<and> meta cb =
         [(''profiler_details'',
           json_serialized_fully_qualified_parameter_name lib pb
           @ FULLY_QUALIFIED_PARAMETER_NAME_SEPARATOR_CHARACTER lib
           @ FULLY_QUALIFIED_PARAMETER_NAME_METADATA_KEY lib)]
     \<and> list_all
          (\<lambda>(k, template).
             prefix (DOMAIN_KWARGS_PARAMETER_FULLY_QUALIFIED_NAME lib
                     @ FULLY_QUALIFIED_PARAMETER_NAME_SEPARATOR_CHARACTER lib) template
             \<or> prefix (json_serialized_fully_qualified_parameter_name lib pb
                       @ FULLY_QUALIFIED_PARAMETER_NAME_SEPARATOR_CHARACTER lib
                       @ FULLY_QUALIFIED_PARAMETER_NAME_VALUE_KEY lib) template
             \<or> prefix (json_serialized_fully_qualified_parameter_name lib pb
                       @ FULLY_QUALIFIED_PARAMETER_NAME_SEPARATOR_CHARACTER lib
                       @ FULLY_QUALIFIED_PARAMETER_NAME_METADATA_KEY lib) template
             \<or> prefix (VARIABLES_KEY lib) template)
          (kwargs cb @ meta cb)"
proof -
  obtain pb where pb: "parameter_builders (build_columns_rule lib) = [pb]"
    using parameter_builders_columns_rule by blast
  from kwargs_columns_rule [OF pb] obtain cb where
    cb: "expectation_configuration_builders (build_columns_rule lib) = [cb]"
    and kw: "kwargs cb = [(''column'',
          DOMAIN_KWARGS_PARAMETER_FULLY_QUALIFIED_NAME lib
          @ FULLY_QUALIFIED_PARAMETER_NAME_SEPARATOR_CHARACTER lib @ ''column''),
       (''min_value'',
          json_serialized_fully_qualified_parameter_name lib pb
          @ FULLY_QUALIFIED_PARAMETER_NAME_SEPARATOR_CHARACTER lib
          @ FULLY_QUALIFIED_PARAMETER_NAME_VALUE_KEY lib @ ''.statistics.min''),
       (''max_value'',
          json_serialized_fully_qualified_parameter_name lib pb
          @ FULLY_QUALIFIED_PARAMETER_NAME_SEPARATOR_CHARACTER lib
          @ FULLY_QUALIFIED_PARAMETER_NAME_VALUE_KEY lib @ ''.statistics.min''),
       (''strict_min'', VARIABLES_KEY lib @ ''strict_min''),
       (''strict_max'', VARIABLES_KEY lib @ ''strict_max'')]"
    by (blast dest: singleton_map)
  from expectation_type_columns_rule [of lib] cb
  have ty: "expectation_type cb = ''expect_column_min_to_be_between''"
    by simp
  from meta_columns_rule [OF pb] cb
  have mt: "meta cb =
         [(''profiler_details'',
           json_serialized_fully_qualified_parameter_name lib pb
           @ FULLY_QUALIFIED_PARAMETER_NAME_SEPARATOR_CHARACTER lib
           @ FULLY_QUALIFIED_PARAMETER_NAME_METADATA_KEY lib)]"
    by simp
  have pre: "\<And>a b c d :: string. prefix (a @ b @ c) (a @ b @ c @ d)"
    by (metis append.assoc prefixI)
  have pre2: "\<And>a b c :: string. prefix (a @ b) (a @ b @ c)"
    by (metis append.assoc prefixI)
  show ?thesis
    apply (rule exI [of _ pb], rule exI [of _ cb])
    apply (simp only: pb cb ty mt kw)
    apply (simp add: pre pre2)
    done
qed

text \<open>
  Claim C3. \<^verbatim>\<open>_build_columns_rule\<close> returns a Rule named \<open>columns_rule\<close> with one
  Domain Builder, which is a column Domain Builder, a list of exactly one Parameter
  Builder, a list of exactly one Configuration Builder, which is the
  \<open>expect_column_min_to_be_between\<close> one, and a variables mapping (no key occurs twice);
  and \<^verbatim>\<open>get_rules\<close> returns the list of exactly this Rule.
\<close>

theorem columns_rule_structure:
  "name (build_columns_rule lib) = ''columns_rule''
   \<and> (\<exists>cdb. domain_builder (build_columns_rule lib) = ColumnDomainBuilder cdb)
   \<and> length (parameter_builders (build_columns_rule lib)) = 1
   \<and> length (expectation_configuration_builders (build_columns_rule lib)) = 1
   \<and> map expectation_type (expectation_configuration_builders (build_columns_rule lib)) =
       [''expect_column_min_to_be_between'']
   \<and> distinct (map fst (variables (build_columns_rule lib)))
   \<and> get_rules lib = Some [build_columns_rule lib]"
proof -
  have "length (map expectation_type
          (expectation_configuration_builders (build_columns_rule lib))) = 1"
    by (simp only: expectation_type_columns_rule) simp
  then have n: "length (expectation_configuration_builders (build_columns_rule lib)) = 1"
    by simp
  have g: "get_rules lib = Some [build_columns_rule lib]"
    by (simp add: get_rules_def Let_def)
  from n g show ?thesis
    by (simp add: name_columns_rule domain_builder_columns_rule
        parameter_builders_columns_rule expectation_type_columns_rule variables_columns_rule)
qed

text \<open>
  Claim C4. The variables of the columns rule have exactly the three keys \<open>strict_min\<close>,
  \<open>strict_max\<close> and \<open>profile_path\<close>, with the values \<open>False\<close>, \<open>False\<close> and
  \<open>"default_profiler_path"\<close>; and \<^verbatim>\<open>get_variables\<close> returns \<open>None\<close>.
\<close>

theorem columns_rule_variables:
  "map fst (variables (build_columns_rule lib)) = [''strict_min'', ''strict_max'', ''profile_path'']
   \<and> dom (map_of (variables (build_columns_rule lib))) =
       {''strict_min'', ''strict_max'', ''profile_path''}
   \<and> map_of (variables (build_columns_rule lib)) ''strict_min'' = Some (PyBool False)
   \<and> map_of (variables (build_columns_rule lib)) ''strict_max'' = Some (PyBool False)
   \<and> map_of (variables (build_columns_rule lib)) ''profile_path'' =
       Some (PyStr ''default_profiler_path'')
   \<and> get_variables = None"
  by (auto simp: variables_columns_rule get_variables_def)

lemma json_to_entries_map: "json_to_entries (map (\<lambda>(k, v). (k, JStr v)) d) = Some d"
  by (induction d) auto

lemma json_to_kwargs_inverse: "json_to_kwargs (kwargs_to_json k) = Some k"
  by (induction k rule: kwargs_to_json.induct) (simp_all add: json_to_entries_map)

lemma parameter_builder_round_trip:
  "parameter_builder_of_config (ParameterBuilderConfig (to_json_dict pb)) = Some pb"
  by (simp add: to_json_dict_def json_to_kwargs_inverse)

text \<open>
  Claim C5. The configuration builder's list of validation parameter builder configs has
  one entry, built from the JSON dictionary of the very Parameter Builder that is in the
  Rule's list of parameter builders. That dictionary re-declares the builder's name and
  metric spec, and reading the config back gives that builder again.
\<close>

theorem columns_rule_validation_config_round_trip:
  "\<exists>pb cb.
     parameter_builders (build_columns_rule lib) = [pb]
     \<and> expectation_configuration_builders (build_columns_rule lib) = [cb]
     \<and> validation_parameter_builder_configs cb = Some [ParameterBuilderConfig (to_json_dict pb)]
     \<and> map_of (to_json_dict pb) ''name'' = Some (JStr (parameter_builder.name pb))
     \<and> map_of (to_json_dict pb) ''metric_name'' = Some (JStr (metric_name pb))
     \<and> map_of (to_json_dict pb) ''metric_domain_kwargs'' =
         Some (kwargs_to_json (metric_domain_kwargs pb))
     \<and> map_of (to_json_dict pb) ''metric_value_kwargs'' =
         Some (kwargs_to_json (metric_value_kwargs pb))
     \<and> map_option (map parameter_builder_of_config) (validation_parameter_builder_configs cb) =
         Some [Some pb]"
proof -
  obtain pb where pb: "parameter_builders (build_columns_rule lib) = [pb]"
    using parameter_builders_columns_rule by blast
  from validation_configs_columns_rule [OF pb] obtain cb where
    cb: "expectation_configuration_builders (build_columns_rule lib) = [cb]"
    and vc: "validation_parameter_builder_configs cb =
               Some [ParameterBuilderConfig (to_json_dict pb)]"
    by (blast dest: singleton_map)
  have js: "map_of (to_json_dict pb) ''name'' = Some (JStr (parameter_builder.name pb))
     \<and> map_of (to_json_dict pb) ''metric_name'' = Some (JStr (metric_name pb))
     \<and> map_of (to_json_dict pb) ''metric_domain_kwargs'' =
         Some (kwargs_to_json (metric_domain_kwargs pb))
     \<and> map_of (to_json_dict pb) ''metric_value_kwargs'' =
         Some (kwargs_to_json (metric_value_kwargs pb))"
    by (simp add: to_json_dict_def)
  from pb cb vc js show ?thesis
    by (simp add: parameter_builder_round_trip del: parameter_builder_of_config.simps)
qed

text \<open>
  Claim C6. The single Parameter Builder of the columns rule declares the metric name
  \<open>data_profiler.column_profile_report\<close>, declares as its metric domain kwargs the
  domain-kwargs fully-qualified parameter name (a name to be resolved, not a mapping),
  and declares metric value kwargs whose \<open>profile_path\<close> entry is the variables key
  followed by \<open>profile_path\<close>.
\<close>

theorem columns_rule_parameter_builder_declares:
  "\<exists>pb d.
     parameter_builders (build_columns_rule lib) = [pb]
     \<and> metric_name pb = ''data_profiler.column_profile_report''
     \<and> metric_domain_kwargs pb =
         Some (KwargsName (DOMAIN_KWARGS_PARAMETER_FULLY_QUALIFIED_NAME lib))
     \<and> metric_value_kwargs pb = Some (KwargsDict d)
     \<and> map_of d ''profile_path'' = Some (VARIABLES_KEY lib @ ''profile_path'')"
  by (simp add: parameter_builders_columns_rule build_metric_single_batch_parameter_builder_def)

lemma no_filters_select_everything:
  assumes "include_column_names b = None" "exclude_column_names b = None"
    "include_column_name_suffixes b = None" "exclude_column_name_suffixes b = None"
    "include_semantic_types b = None" "exclude_semantic_types b = None"
  shows "get_effective_columns b cols = cols"
  using assms
  by (simp add: get_effective_columns_def filter_by_names_def filter_by_suffixes_def
      filter_by_semantic_types_def)

lemma filter_precedence_scenario:
  "map fst (get_effective_columns
     \<lparr>include_column_names = Some [''x'', ''y''],
      exclude_column_names = Some [''y''],
      include_column_name_suffixes = None,
      exclude_column_name_suffixes = None,
      semantic_type_filter_module_name = None,
      semantic_type_filter_class_name = None,
      include_semantic_types = None,
      exclude_semantic_types = None,
      data_context = None\<rparr>
     [(''x'', Numeric), (''y'', Text), (''z'', Numeric)]) = [''x'']"
  by (simp add: get_effective_columns_def filter_by_names_def)

text \<open>
  Claim C7. The column Domain Builder of the columns rule is constructed with every filter
  argument \<open>None\<close> (column names, column-name suffixes and semantic types to include and
  to exclude, and the module and class of the semantic-type filter). Under the filter
  pipeline no column of a schema is excluded: the effective columns are the whole schema,
  and the builder yields one column domain for each column of a schema that has any.
\<close>

theorem columns_rule_domain_builder_selects_all_columns:
  "\<exists>cdb.
     domain_builder (build_columns_rule lib) = ColumnDomainBuilder cdb
     \<and> include_column_names cdb = None
     \<and> exclude_column_names cdb = None
     \<and> include_column_name_suffixes cdb = None
     \<and> exclude_column_name_suffixes cdb = None
     \<and> semantic_type_filter_module_name cdb = None
     \<and> semantic_type_filter_class_name cdb = None
     \<and> include_semantic_types cdb = None
     \<and> exclude_semantic_types cdb = None
     \<and> get_effective_columns cdb cols = cols
     \<and> build_domains cdb cols =
         (if cols = [] then Inl NoDomainsFoundError else Inr (map column_domain cols))"
  by (simp add: domain_builder_columns_rule no_filters_select_everything build_domains_def)

lemma build_data_assistant_result_named_fields:
  "result_class (build_data_assistant_result r) = ProfileReportBasedColumnsDataAssistantResult
   \<and> batch_id_to_batch_identifier_display_name_map (build_data_assistant_result r) =
       batch_id_to_batch_identifier_display_name_map r
   \<and> profiler_config (build_data_assistant_result r) = profiler_config r
   \<and> profiler_execution_time (build_data_assistant_result r) = profiler_execution_time r
   \<and> rule_domain_builder_execution_time (build_data_assistant_result r) =
       rule_domain_builder_execution_time r
   \<and> rule_execution_time (build_data_assistant_result r) = rule_execution_time r
   \<and> metrics_by_domain (build_data_assistant_result r) = metrics_by_domain r
   \<and> expectation_configurations (build_data_assistant_result r) = expectation_configurations r
   \<and> citation (build_data_assistant_result r) = citation r
   \<and> usage_statistics_handler (build_data_assistant_result r) = usage_statistics_handler r"
  by (simp add: build_data_assistant_result_def)

lemma build_data_assistant_result_tracebacks:
  "rule_exception_tracebacks (build_data_assistant_result r) = None"
  by (simp add: build_data_assistant_result_def)

lemma build_data_assistant_result_frame:
  "build_data_assistant_result r = r\<lparr>result_class := ProfileReportBasedColumnsDataAssistantResult\<rparr>
     \<longleftrightarrow> rule_exception_tracebacks r = None"
proof
  assume "build_data_assistant_result r =
            r\<lparr>result_class := ProfileReportBasedColumnsDataAssistantResult\<rparr>"
  then have "rule_exception_tracebacks (build_data_assistant_result r) =
               rule_exception_tracebacks
                 (r\<lparr>result_class := ProfileReportBasedColumnsDataAssistantResult\<rparr>)"
    by simp
  then show "rule_exception_tracebacks r = None"
    by (simp add: build_data_assistant_result_tracebacks)
next
  assume "rule_exception_tracebacks r = None"
  then show "build_data_assistant_result r =
               r\<lparr>result_class := ProfileReportBasedColumnsDataAssistantResult\<rparr>"
    by (cases r) (simp add: build_data_assistant_result_def)
qed

text \<open>
  Claim C8. The claim is that \<^verbatim>\<open>_build_data_assistant_result\<close> returns a
  \<open>ProfileReportBasedColumnsDataAssistantResult\<close> in which every field of the Result is
  the input's, so that only the concrete class changes. The function does keep the nine
  fields it names, but not the surfaced errors: for the input whose
  \<open>rule_exception_tracebacks\<close> records a failure of \<open>columns_rule\<close> (every other field
  \<open>None\<close>), the result has the class \<open>ProfileReportBasedColumnsDataAssistantResult\<close> and
  the nine named fields of the input, its \<open>rule_exception_tracebacks\<close> is \<open>None\<close>, and
  so it is not the input with only its class changed.
\<close>

theorem build_data_assistant_result_drops_tracebacks:
  "build_data_assistant_result
     \<lparr>result_class = DataAssistantResult,
      batch_id_to_batch_identifier_display_name_map = (None :: unit option),
      profiler_config = (None :: unit option),
      profiler_execution_time = (None :: unit option),
      rule_domain_builder_execution_time = (None :: unit option),
      rule_execution_time = (None :: unit option),
      rule_exception_tracebacks = Some [(''columns_rule'', ''Traceback: MetricError'')],
      metrics_by_domain = (None :: unit option),
      expectation_configurations = (None :: unit option),
      citation = (None :: unit option),
      usage_statistics_handler = (None :: unit option)\<rparr>
   = \<lparr>result_class = ProfileReportBasedColumnsDataAssistantResult,
      batch_id_to_batch_identifier_display_name_map = None,
      profiler_config = None,
      profiler_execution_time = None,
      rule_domain_builder_execution_time = None,
      rule_execution_time = None,
      rule_exception_tracebacks = None,
      metrics_by_domain = None,
      expectation_configurations = None,
      citation = None,
      usage_statistics_handler = None\<rparr>
   \<and> build_data_assistant_result
     \<lparr>result_class = DataAssistantResult,
      batch_id_to_batch_identifier_display_name_map = (None :: unit option),
      profiler_config = (None :: unit option),
      profiler_execution_time = (None :: unit option),
      rule_domain_builder_execution_time = (None :: unit option),
      rule_execution_time = (None :: unit option),
      rule_exception_tracebacks = Some [(''columns_rule'', ''Traceback: MetricError'')],
      metrics_by_domain = (None :: unit option),
      expectation_configurations = (None :: unit option),
      citation = (None :: unit option),
      usage_statistics_handler = (None :: unit option)\<rparr>
   \<noteq> \<lparr>result_class = ProfileReportBasedColumnsDataAssistantResult,
      batch_id_to_batch_identifier_display_name_map = None,
      profiler_config = None,
      profiler_execution_time = None,
      rule_domain_builder_execution_time = None,
      rule_execution_time = None,
      rule_exception_tracebacks = Some [(''columns_rule'', ''Traceback: MetricError'')],
      metrics_by_domain = None,
      expectation_configurations = None,
      citation = None,
      usage_statistics_handler = None\<rparr>"
  by (simp add: build_data_assistant_result_def)

section \<open>Properties of Configuration equality and deduplication\<close>

lemma configuration_eq_refl: "configuration_eq a a"
  by (simp add: configuration_eq_def)

lemma configuration_eq_sym: "configuration_eq a b \<Longrightarrow> configuration_eq b a"
  by (simp add: configuration_eq_def)

lemma configuration_eq_trans:
  "configuration_eq a b \<Longrightarrow> configuration_eq b c \<Longrightarrow> configuration_eq a c"
  by (simp add: configuration_eq_def)

lemma add_configuration_at_most_one:
  assumes "\<And>a. length (filter (configuration_eq a) cs) \<le> 1"
  shows "length (filter (configuration_eq a) (add_configuration cs c)) \<le> 1"
proof (cases "list_ex (\<lambda>x. configuration_eq x c) cs")
  case True
  with assms show ?thesis
    by (simp add: add_configuration_def)
next
  case False
  show ?thesis
  proof (cases "configuration_eq a c")
    case True
    have "filter (configuration_eq a) cs = []"
    proof (rule ccontr)
      assume "filter (configuration_eq a) cs \<noteq> []"
      then obtain x where "x \<in> set cs" and "configuration_eq a x"
        by (metis filter_False)
      with True have "configuration_eq x c"
        by (blast intro: configuration_eq_sym configuration_eq_trans)
      with \<open>x \<in> set cs\<close> False show False
        by (auto simp: list_ex_iff)
    qed
    with False True show ?thesis
      by (simp add: add_configuration_def)
  next
    case no: False
    with False assms [of a] show ?thesis
      by (simp add: add_configuration_def)
  qed
qed

lemma add_configuration_covers:
  "(\<exists>x \<in> set (add_configuration cs c). configuration_eq a x)
     \<longleftrightarrow> (\<exists>x \<in> set cs. configuration_eq a x) \<or> configuration_eq a c"
proof (cases "list_ex (\<lambda>x. configuration_eq x c) cs")
  case True
  then obtain y where "y \<in> set cs" "configuration_eq y c"
    by (auto simp: list_ex_iff)
  then have "configuration_eq a c \<Longrightarrow> \<exists>x \<in> set cs. configuration_eq a x"
    by (blast intro: configuration_eq_sym configuration_eq_trans)
  with True show ?thesis
    by (auto simp: add_configuration_def)
next
  case False
  then show ?thesis
    by (auto simp: add_configuration_def)
qed

lemma foldl_add_configuration_at_most_one:
  "(\<And>a. length (filter (configuration_eq a) acc) \<le> 1) \<Longrightarrow>
   length (filter (configuration_eq a) (foldl add_configuration acc cs)) \<le> 1"
proof (induction cs arbitrary: acc a)
  case Nil
  then show ?case by simp
next
  case (Cons c cs)
  have "\<And>b. length (filter (configuration_eq b) (add_configuration acc c)) \<le> 1"
    using Cons.prems by (rule add_configuration_at_most_one)
  then show ?case
    using Cons.IH by simp
qed

lemma foldl_add_configuration_covers:
  "(\<exists>x \<in> set (foldl add_configuration acc cs). configuration_eq a x)
     \<longleftrightarrow> (\<exists>x \<in> set acc. configuration_eq a x) \<or> (\<exists>x \<in> set cs. configuration_eq a x)"
proof (induction cs arbitrary: acc)
  case Nil
  then show ?case by simp
next
  case (Cons c cs)
  show ?case
    by (simp add: Cons.IH add_configuration_covers)
qed

lemma deduplicate_exactly_one:
  assumes "a \<in> set cs"
  shows "length (filter (configuration_eq a) (deduplicate cs)) = 1"
proof -
  have le: "length (filter (configuration_eq a) (deduplicate cs)) \<le> 1"
    unfolding deduplicate_def by (rule foldl_add_configuration_at_most_one) simp
  from assms have "\<exists>x \<in> set cs. configuration_eq a x"
    by (blast intro: configuration_eq_refl)
  then have "\<exists>x \<in> set (deduplicate cs). configuration_eq a x"
    by (simp add: deduplicate_def foldl_add_configuration_covers)
  then have "filter (configuration_eq a) (deduplicate cs) \<noteq> []"
    by (simp add: filter_empty_conv)
  then have "1 \<le> length (filter (configuration_eq a) (deduplicate cs))"
    by (cases "filter (configuration_eq a) (deduplicate cs)") simp_all
  with le show ?thesis
    by simp
qed

lemma deduplicate_pair:
  "deduplicate [a, b] = (if configuration_eq a b then [a] else [a, b])"
  by (simp add: deduplicate_def add_configuration_def)

text \<open>
  Claim C9. Two Configurations are equal exactly when their type tags and their field
  mappings are equal; changing the \<open>meta\<close> mapping of either changes nothing. Hence two
  Configurations with the same type and fields collapse to one entry of the deduplicated
  list, whatever their \<open>meta\<close>, while two that differ in type or fields are both kept;
  and in general the deduplicated list holds exactly one entry equal to any given
  Configuration of the accumulated ones.
\<close>

theorem configuration_equality_ignores_meta:
  "(configuration_eq a b \<longleftrightarrow>
      configuration_type a = configuration_type b
      \<and> configuration_fields a = configuration_fields b)
   \<and> configuration_eq (a\<lparr>configuration.meta := m\<rparr>) b = configuration_eq a b
   \<and> configuration_eq a (b\<lparr>configuration.meta := m\<rparr>) = configuration_eq a b
   \<and> (configuration_type a = configuration_type b
        \<and> configuration_fields a = configuration_fields b
       \<longrightarrow> deduplicate [a, b] = [a] \<and> length (deduplicate [a, b]) = 1)
   \<and> (configuration_eq a b \<or> deduplicate [a, b] = [a, b])
   \<and> (c \<in> set cs \<longrightarrow> length (filter (configuration_eq c) (deduplicate cs)) = 1)"
  by (simp add: deduplicate_exactly_one deduplicate_pair) (simp add: configuration_eq_def)

theorem configuration_equality_ignores_meta_witness:
  "\<lparr>configuration_type = ''range_check'',
     configuration_fields = [''field'' \<mapsto> PyStr ''amount'', ''min'' \<mapsto> PyInt 1],
     configuration.meta = [''domain'' \<mapsto> PyStr ''a'']\<rparr>
   \<noteq> \<lparr>configuration_type = ''range_check'',
     configuration_fields = [''field'' \<mapsto> PyStr ''amount'', ''min'' \<mapsto> PyInt 1],
     configuration.meta = [''domain'' \<mapsto> PyStr ''b'']\<rparr>
   \<and> deduplicate
       [\<lparr>configuration_type = ''range_check'',
         configuration_fields = [''field'' \<mapsto> PyStr ''amount'', ''min'' \<mapsto> PyInt 1],
         configuration.meta = [''domain'' \<mapsto> PyStr ''a'']\<rparr>,
        \<lparr>configuration_type = ''range_check'',
         configuration_fields = [''field'' \<mapsto> PyStr ''amount'', ''min'' \<mapsto> PyInt 1],
         configuration.meta = [''domain'' \<mapsto> PyStr ''b'']\<rparr>]
     = [\<lparr>configuration_type = ''range_check'',
         configuration_fields = [''field'' \<mapsto> PyStr ''amount'', ''min'' \<mapsto> PyInt 1],
         configuration.meta = [''domain'' \<mapsto> PyStr ''a'']\<rparr>]"
proof -
  let ?a = "\<lparr>configuration_type = ''range_check'',
     configuration_fields = [''field'' \<mapsto> PyStr ''amount'', ''min'' \<mapsto> PyInt 1],
     configuration.meta = [''domain'' \<mapsto> PyStr ''a'']\<rparr>"
  let ?b = "\<lparr>configuration_type = ''range_check'',
     configuration_fields = [''field'' \<mapsto> PyStr ''amount'', ''min'' \<mapsto> PyInt 1],
     configuration.meta = [''domain'' \<mapsto> PyStr ''b'']\<rparr>"
  have "[''domain'' \<mapsto> PyStr ''a''] ''domain'' \<noteq> [''domain'' \<mapsto> PyStr ''b''] ''domain''"
    by simp
  then have "[''domain'' \<mapsto> PyStr ''a''] \<noteq> [''domain'' \<mapsto> PyStr ''b'']"
    by metis
  then have ne: "?a \<noteq> ?b"
    by simp
  have "configuration_type ?a = configuration_type ?b
        \<and> configuration_fields ?a = configuration_fields ?b"
    by simp
  with configuration_equality_ignores_meta [of ?a ?b] ne show ?thesis
    by blast
qed

end
